theory Spec2Isabelle
  imports Complex_Main
begin

section \<open>Numerical arrays of the notebooks\<close>

text \<open>
  The notebooks compute with NumPy arrays of floating-point numbers. The arrays are
  modelled as lists (a matrix is the list of its rows) and the numbers as the reals
  and complex numbers of exact arithmetic: rounding, overflow to \<open>inf\<close> and \<open>nan\<close>
  are outside the model, so every statement below is about the arithmetic the code
  writes down, on inputs where no division by zero occurs.
\<close>

datatype error =
    IndexError
  | TypeError
  | ZeroDivisionError
  | AssertNormPositive   \<comment> \<open>AssertionError of \<open>assert norm > 0\<close>\<close>
  | AssertSameLength     \<comment> \<open>AssertionError of \<open>assert len(coeff) == len(psi) == len(E)\<close>\<close>

type_synonym mat = "real list list"

text \<open>\<open>np.linspace(start, stop, num)\<close> with the end point included.\<close>

definition linspace :: "real \<Rightarrow> real \<Rightarrow> nat \<Rightarrow> real list" where
  "linspace start stop num =
     map (\<lambda>i. start + real i * ((stop - start) / real (num - 1))) [0..<num]"

text \<open>\<open>np.eye(N, k=k)\<close>: ones on the \<open>k\<close>-th diagonal, where \<open>j - i = k\<close>.\<close>

definition eye :: "nat \<Rightarrow> int \<Rightarrow> mat" where
  "eye N k = map (\<lambda>i. map (\<lambda>j. if int j - int i = k then 1 else 0) [0..<N]) [0..<N]"

text \<open>A scalar times a matrix, a vector times a matrix (broadcast along the last
  axis, so column \<open>j\<close> is multiplied by entry \<open>j\<close>), and the sum of two matrices.\<close>

definition smul :: "real \<Rightarrow> mat \<Rightarrow> mat" where
  "smul c M = map (map ((*) c)) M"

definition bmul :: "real list \<Rightarrow> mat \<Rightarrow> mat" where
  "bmul v M = map (\<lambda>row. map2 (*) v row) M"

definition madd :: "mat \<Rightarrow> mat \<Rightarrow> mat" where
  "madd A B = map2 (map2 (+)) A B"

section \<open>The finite-difference Hamiltonian\<close>

text \<open>
  \<^verbatim>\<open>
  X = np.linspace(0,L,num=N) - L/2
  a = X[1] - X[0] # grid spacing
  t = -eta**2 / (2 * m * a**2)
  eps = -2*t + q * V(X)
  H = t*np.eye(N, k=-1) + eps*np.eye(N) + t*np.eye(N, k=1)
  \<close>
  Both potentials of the notebook act on the grid array element by element
  (a barrier of height 0.05 where \<open>|x| \<le> w/2\<close>, and \<open>0.001 * x**2\<close>), so \<open>V(X)\<close> is the
  map of a function of one position.
\<close>

definition V_barrier :: "real \<Rightarrow> real \<Rightarrow> real" where
  "V_barrier w x = (if \<bar>x\<bar> \<le> w / 2 then 0.05 else 0)"

definition V_harmonic :: "real \<Rightarrow> real" where
  "V_harmonic x = 0.001 * x ^ 2"

definition grid :: "real \<Rightarrow> nat \<Rightarrow> real list" where
  "grid L N = map (\<lambda>x. x - L / 2) (linspace 0 L N)"

definition spacing :: "real list \<Rightarrow> error + real" where
  "spacing X = (if length X < 2 then Inl IndexError else Inr (X ! 1 - X ! 0))"

definition hopping :: "real \<Rightarrow> real \<Rightarrow> real \<Rightarrow> real" where
  "hopping eta m a = - (eta ^ 2) / (2 * m * a ^ 2)"

definition onsite :: "real \<Rightarrow> real \<Rightarrow> real list \<Rightarrow> real list" where
  "onsite t q VX = map (\<lambda>v. - 2 * t + q * v) VX"

definition hamiltonian :: "nat \<Rightarrow> real \<Rightarrow> real list \<Rightarrow> mat" where
  "hamiltonian N t eps =
     madd (madd (smul t (eye N (- 1))) (bmul eps (eye N 0))) (smul t (eye N 1))"

record discretization =
  d_X :: "real list"
  d_a :: real
  d_t :: real
  d_eps :: "real list"
  d_H :: mat

definition discretize ::
  "nat \<Rightarrow> real \<Rightarrow> (real \<Rightarrow> real) \<Rightarrow> real \<Rightarrow> real \<Rightarrow> real \<Rightarrow> error + discretization" where
  "discretize N L V eta m q =
     (let X = grid L N in
      case spacing X of
        Inl e \<Rightarrow> Inl e
      | Inr a \<Rightarrow>
          let t = hopping eta m a;
              eps = onsite t q (map V X)
          in Inr \<lparr>d_X = X, d_a = a, d_t = t, d_eps = eps, d_H = hamiltonian N t eps\<rparr>)"

section \<open>Diagonalisation and reordering\<close>

text \<open>
  \<^verbatim>\<open>
  vals, vecs = np.linalg.eig(H)
  order = np.argsort(vals)
  vals, vecs = vals[order], vecs[:, order]
  vecs = vecs.T
  vecs /= np.sqrt(a)
  \<close>
  The dense eigensolver is library code: it is a parameter \<open>eig\<close> of the model, which
  returns the eigenvalues and the matrix whose columns are the eigenvectors.
  \<open>np.argsort\<close> returns indices that sort the array; it is modelled by the stable
  insertion sort of the indices by their values.
\<close>

type_synonym eigensolver = "mat \<Rightarrow> real list \<times> mat"

definition argsort :: "real list \<Rightarrow> nat list" where
  "argsort vals = sort_key (\<lambda>k. vals ! k) [0..<length vals]"

definition take_idx :: "real list \<Rightarrow> nat list \<Rightarrow> real list" where
  "take_idx vals order = map (\<lambda>k. vals ! k) order"

definition take_cols :: "mat \<Rightarrow> nat list \<Rightarrow> mat" where
  "take_cols vecs order = map (\<lambda>row. map (\<lambda>k. row ! k) order) vecs"

definition ncols :: "'a list list \<Rightarrow> nat" where
  "ncols M = (case M of [] \<Rightarrow> 0 | row # _ \<Rightarrow> length row)"

definition column :: "nat \<Rightarrow> 'a list list \<Rightarrow> 'a list" where
  "column j M = map (\<lambda>row. row ! j) M"

definition transpose_mat :: "mat \<Rightarrow> mat" where
  "transpose_mat M = map (\<lambda>j. column j M) [0..<ncols M]"

definition divide_all :: "mat \<Rightarrow> real \<Rightarrow> mat" where
  "divide_all M c = map (map (\<lambda>x. x / c)) M"

definition reorder :: "real \<Rightarrow> real list \<times> mat \<Rightarrow> real list \<times> mat" where
  "reorder a ev =
     (let vals = fst ev; vecs = snd ev;
          order = argsort vals;
          vals = take_idx vals order;
          vecs = take_cols vecs order;
          vecs = transpose_mat vecs;
          vecs = divide_all vecs (sqrt a)
      in (vals, vecs))"

definition solve_tise ::
  "eigensolver \<Rightarrow> nat \<Rightarrow> real \<Rightarrow> (real \<Rightarrow> real) \<Rightarrow> real \<Rightarrow> real \<Rightarrow> real
     \<Rightarrow> error + real list \<times> mat" where
  "solve_tise eig N L V eta m q =
     (case discretize N L V eta m q of
        Inl e \<Rightarrow> Inl e
      | Inr d \<Rightarrow> Inr (reorder (d_a d) (eig (d_H d))))"

text \<open>What it means for a value and a vector to be an eigenpair of a matrix.\<close>

definition dot :: "real list \<Rightarrow> real list \<Rightarrow> real" where
  "dot u v = sum_list (map2 (*) u v)"

definition mat_vec :: "mat \<Rightarrow> real list \<Rightarrow> real list" where
  "mat_vec M v = map (\<lambda>row. dot row v) M"

definition eigenpair :: "mat \<Rightarrow> real \<Rightarrow> real list \<Rightarrow> bool" where
  "eigenpair M lam v = (mat_vec M v = map ((*) lam) v \<and> (\<exists>x \<in> set v. x \<noteq> 0))"

section \<open>Probability density\<close>

text \<open>
  \<^verbatim>\<open>p = np.abs(vecs)**2\<close>, on the matrix whose rows are the wavefunctions.
\<close>

definition prob_density :: "mat \<Rightarrow> mat" where
  "prob_density vecs = map (map (\<lambda>x. \<bar>x\<bar> ^ 2)) vecs"

section \<open>Superposition states\<close>

text \<open>
  The second half of the notebook works with complex arrays: \<open>psi\<close> holds the first
  \<open>cutoff\<close> wavefunctions (one per row), \<open>E\<close> their energies and \<open>coeff\<close> the
  coefficients of the superposition.
\<close>

text \<open>\<open>c @ psi\<close> for a vector \<open>c\<close> and a matrix \<open>psi\<close> with one row per entry of \<open>c\<close>.\<close>

definition vec_mat :: "complex list \<Rightarrow> complex list list \<Rightarrow> complex list" where
  "vec_mat c psi = map (\<lambda>j. sum_list (map2 (*) c (column j psi))) [0..<ncols psi]"

text \<open>\<open>(np.abs(coeff)**2).sum()\<close>\<close>

definition sq_norm :: "complex list \<Rightarrow> real" where
  "sq_norm coeff = sum_list (map (\<lambda>z. (cmod z) ^ 2) coeff)"

subsection \<open>The normalisation cell\<close>

text \<open>
  \<^verbatim>\<open>
  try:
      norm = (np.abs(coeff)**2).sum()
      assert norm > 0
      coeff /= np.sqrt(norm)
  except AssertionError:
      print('Error: Norm is zero, you must set the coeffients to nonzero')

  print('\nCoeffients:', coeff)
  \<close>
  The state of the cell is the two variables it writes and the text it prints. The
  body of the \<open>try\<close> either completes or raises, and an exception leaves the variables
  as they were when it was raised.
\<close>

datatype printed = Text string | TextArray string "complex list"

record nb_state =
  s_coeff :: "complex list"
  s_norm :: "real option"
  s_out :: "printed list"

definition is_AssertionError :: "error \<Rightarrow> bool" where
  "is_AssertionError e =
     (case e of AssertNormPositive \<Rightarrow> True | AssertSameLength \<Rightarrow> True | _ \<Rightarrow> False)"

definition norm_error_message :: string where
  "norm_error_message = ''Error: Norm is zero, you must set the coeffients to nonzero''"

definition try_body :: "nb_state \<Rightarrow> error \<times> nb_state + nb_state" where
  "try_body s =
     (let norm = sq_norm (s_coeff s);
          s = s\<lparr>s_norm := Some norm\<rparr>
      in if norm > 0
         then Inr (s\<lparr>s_coeff := map (\<lambda>z. z / complex_of_real (sqrt norm)) (s_coeff s)\<rparr>)
         else Inl (AssertNormPositive, s))"

definition print_coeff :: "nb_state \<Rightarrow> nb_state" where
  "print_coeff s = s\<lparr>s_out := s_out s @ [TextArray (CHR 0x0A # ''Coeffients:'') (s_coeff s)]\<rparr>"

definition normalize_cell :: "nb_state \<Rightarrow> error + nb_state" where
  "normalize_cell s =
     (case try_body s of
        Inr s' \<Rightarrow> Inr (print_coeff s')
      | Inl (e, s') \<Rightarrow>
          if is_AssertionError e
          then Inr (print_coeff (s'\<lparr>s_out := s_out s' @ [Text norm_error_message]\<rparr>))
          else Inl e)"

text \<open>
  NumPy evaluates the two numeric expressions of this cell in single precision (\<open>coeff\<close>
  is an array of \<open>complex64\<close>): the norm \<open>(np.abs(coeff)**2).sum()\<close> and the quotient
  \<open>coeff / np.sqrt(norm)\<close>. What they round to is the library's business, so the cell
  is also given with the two evaluations as parameters. Exact arithmetic is one
  instance. Another one is exact but for the underflow of single precision: a square
  of at most \<open>2\<^sup>-\<^sup>1\<^sup>5\<^sup>0\<close>, half the smallest positive number of that format, rounds to
  zero.
\<close>

record arithmetic =
  sq_norm_of :: "complex list \<Rightarrow> real"
  div_sqrt_of :: "complex list \<Rightarrow> real \<Rightarrow> complex list"

definition try_body_in :: "arithmetic \<Rightarrow> nb_state \<Rightarrow> error \<times> nb_state + nb_state" where
  "try_body_in ar s =
     (let norm = sq_norm_of ar (s_coeff s);
          s = s\<lparr>s_norm := Some norm\<rparr>
      in if norm > 0
         then Inr (s\<lparr>s_coeff := div_sqrt_of ar (s_coeff s) norm\<rparr>)
         else Inl (AssertNormPositive, s))"

definition normalize_cell_in :: "arithmetic \<Rightarrow> nb_state \<Rightarrow> error + nb_state" where
  "normalize_cell_in ar s =
     (case try_body_in ar s of
        Inr s' \<Rightarrow> Inr (print_coeff s')
      | Inl (e, s') \<Rightarrow>
          if is_AssertionError e
          then Inr (print_coeff (s'\<lparr>s_out := s_out s' @ [Text norm_error_message]\<rparr>))
          else Inl e)"

definition div_sqrt :: "complex list \<Rightarrow> real \<Rightarrow> complex list" where
  "div_sqrt coeff n = map (\<lambda>z. z / complex_of_real (sqrt n)) coeff"

definition exact :: arithmetic where
  "exact = \<lparr>sq_norm_of = sq_norm, div_sqrt_of = div_sqrt\<rparr>"




subsection \<open>The generator \<open>evolve\<close>\<close>

text \<open>
  \<^verbatim>\<open>
  def evolve(coeff, psi, E, timestep=5, num_step=300):
      assert len(coeff) == len(psi) == len(E)
      ts = np.arange(num_step)*timestep
      t = 0
      cnt = 0
      while num_step is None or cnt < num_step:
          c = coeff * np.exp(- 1j * E / eta * t)
          cnt += 1
          t += timestep
          yield t, c @ psi
  \<close>
  A generator is a state machine: nothing runs when it is created, and each \<open>next\<close>
  runs the body up to the following \<open>yield\<close>, to the end of the body
  (\<open>StopIteration\<close>) or to an exception. The state between two calls is the pair of
  local variables \<open>cnt\<close> and \<open>t\<close>. \<open>np.arange(None)\<close> raises \<open>TypeError\<close> (NumPy computes
  \<open>stop - start\<close> with \<open>stop = None\<close>); \<open>eta\<close> is the global variable of the notebook.
\<close>

record evolve_args =
  e_coeff :: "complex list"
  e_psi :: "complex list list"
  e_E :: "real list"
  e_timestep :: real
  e_num_step :: "int option"

datatype gen_state = Created | Suspended int real | Finished

datatype 'a signal = Yield 'a | StopIteration | Raise error

definition arange :: "int option \<Rightarrow> error + real list" where
  "arange num = (case num of None \<Rightarrow> Inl TypeError | Some n \<Rightarrow> Inr (map real_of_int [0..n - 1]))"

definition phase_coeff :: "real \<Rightarrow> complex list \<Rightarrow> real list \<Rightarrow> real \<Rightarrow> complex list" where
  "phase_coeff eta coeff E t =
     map2 (\<lambda>c e. c * exp (- \<i> * complex_of_real e / complex_of_real eta * complex_of_real t))
       coeff E"

definition loop_head ::
  "evolve_args \<Rightarrow> real \<Rightarrow> int \<Rightarrow> real \<Rightarrow> (real \<times> complex list) signal \<times> gen_state" where
  "loop_head A eta cnt t =
     (if (case e_num_step A of None \<Rightarrow> True | Some n \<Rightarrow> cnt < n)
      then
        let c = phase_coeff eta (e_coeff A) (e_E A) t;
            cnt = cnt + 1;
            t = t + e_timestep A
        in (Yield (t, vec_mat c (e_psi A)), Suspended cnt t)
      else (StopIteration, Finished))"

definition evolve_next ::
  "evolve_args \<Rightarrow> real \<Rightarrow> gen_state \<Rightarrow> (real \<times> complex list) signal \<times> gen_state" where
  "evolve_next A eta st =
     (case st of
        Created \<Rightarrow>
          if length (e_coeff A) = length (e_psi A) \<and> length (e_psi A) = length (e_E A)
          then (case arange (e_num_step A) of
                  Inl e \<Rightarrow> (Raise e, Finished)
                | Inr r \<Rightarrow>
                    let ts = map (\<lambda>x. x * e_timestep A) r
                    in loop_head A eta 0 0)
          else (Raise AssertSameLength, Finished)
      | Suspended cnt t \<Rightarrow> loop_head A eta cnt t
      | Finished \<Rightarrow> (StopIteration, Finished))"

text \<open>The results of \<open>k\<close> successive calls of \<open>next\<close>.\<close>

fun nexts ::
  "evolve_args \<Rightarrow> real \<Rightarrow> gen_state \<Rightarrow> nat \<Rightarrow> (real \<times> complex list) signal list" where
  "nexts A eta st 0 = []"
| "nexts A eta st (Suc k) =
     (case evolve_next A eta st of (r, st') \<Rightarrow> r # nexts A eta st' k)"

subsection \<open>The animation frames\<close>

text \<open>
  \<^verbatim>\<open>
  wave = (coeff @ psi)
  wave_real, = ax1.plot(X, wave.real, c='b')
  wave_imag, = ax1.plot(X, wave.imag, c='r')
  p = np.abs(wave)**2
  dens, = ax2.plot(X, p, color='k')

  def run(data):
      t, wave = data
      ax1.set_title('Wavefunction (t={:.2f})'.format(t))
      wave_real.set_data(X, wave.real)
      wave_imag.set_data(X, wave.imag)
      p = np.abs(wave)**2
      dens.set_data(X, p)
      return wave_real, wave_imag, dens
  \<close>
  A frame is the data of the three plotted lines; \<open>run\<close> is called by the animation on
  every pair the generator yields.
\<close>

record frame =
  f_time :: "real option"
  f_wave_real :: "real list \<times> real list"
  f_wave_imag :: "real list \<times> real list"
  f_dens :: "real list \<times> real list"

definition first_frame :: "real list \<Rightarrow> complex list \<Rightarrow> complex list list \<Rightarrow> frame" where
  "first_frame X coeff psi =
     (let wave = vec_mat coeff psi;
          p = map (\<lambda>z. (cmod z) ^ 2) wave
      in \<lparr>f_time = None, f_wave_real = (X, map Re wave), f_wave_imag = (X, map Im wave),
          f_dens = (X, p)\<rparr>)"

definition run :: "real list \<Rightarrow> real \<times> complex list \<Rightarrow> frame" where
  "run X data =
     (case data of (t, wave) \<Rightarrow>
        let p = map (\<lambda>z. (cmod z) ^ 2) wave
        in \<lparr>f_time = Some t, f_wave_real = (X, map Re wave), f_wave_imag = (X, map Im wave),
            f_dens = (X, p)\<rparr>)"

section \<open>The quantum-circuit notebook\<close>

text \<open>
  The second notebook is straight-line code over a circuit-simulation library. A
  circuit is modelled by what the notebook builds: its number of qubits and the list
  of instructions appended to it. What the library computes (sampling, transpilation,
  running on the fake backend) is a parameter of the model; the model records every
  call of the library in the order in which the cells make them.
\<close>

datatype gate = h_gate nat | cx_gate nat nat | measure_all_gate

record circuit =
  num_qubits :: nat
  instrs :: "gate list"

definition QuantumCircuit :: "nat \<Rightarrow> circuit" where
  "QuantumCircuit n = \<lparr>num_qubits = n, instrs = []\<rparr>"

definition append_gate :: "gate \<Rightarrow> circuit \<Rightarrow> circuit" where
  "append_gate g qc = qc\<lparr>instrs := instrs qc @ [g]\<rparr>"

record ('d, 't) library =
  sampler_run :: "circuit \<Rightarrow> 'd"
  get_bitstrings :: "'d \<Rightarrow> string list"
  get_counts :: "'d \<Rightarrow> (string \<times> nat) list"
  transpile :: "circuit \<Rightarrow> 't"
  backend_run_counts :: "'t \<Rightarrow> (string \<times> nat) list"

datatype call =
    C_QuantumCircuit nat
  | C_gate gate
  | C_draw circuit
  | C_plt_draw
  | C_StatevectorSampler
  | C_sampler_run circuit
  | C_get_bitstrings
  | C_get_counts
  | C_print
  | C_plot_histogram
  | C_FakeSherbrooke
  | C_transpile circuit
  | C_backend_run
  | C_job_get_counts

text \<open>
  \<^verbatim>\<open>
  probs = {}
  total_counts = len(bitstrings)
  total_prob = 0
  for state in counts.keys():
      probs[state] = counts[state]/total_counts
      total_prob += counts[state]/total_counts
  \<close>
  The dictionary \<open>counts\<close> is the list of its items in iteration order.
\<close>

fun probs_loop ::
  "(string \<times> nat) list \<Rightarrow> nat \<Rightarrow> (string \<times> real) list \<Rightarrow> real
     \<Rightarrow> error + (string \<times> real) list \<times> real" where
  "probs_loop [] total_counts probs total_prob = Inr (probs, total_prob)"
| "probs_loop ((state, c) # rest) total_counts probs total_prob =
     (if total_counts = 0 then Inl ZeroDivisionError
      else probs_loop rest total_counts
             (probs @ [(state, real c / real total_counts)])
             (total_prob + real c / real total_counts))"

record hw4_result =
  r_qc :: circuit
  r_probs :: "(string \<times> real) list"
  r_total_prob :: real
  r_counts :: "(string \<times> nat) list"
  r_calls :: "call list"

definition hw4 :: "('d, 't) library \<Rightarrow> error + hw4_result" where
  "hw4 lib =
     (let qc = QuantumCircuit 1;
          calls = [C_QuantumCircuit 1];
          calls = calls @ [C_draw qc, C_plt_draw];
          qc = append_gate (h_gate 0) qc;
          qc = append_gate measure_all_gate qc;
          calls = calls @ [C_gate (h_gate 0), C_gate measure_all_gate, C_draw qc, C_plt_draw];
          data = sampler_run lib qc;
          calls = calls @ [C_StatevectorSampler, C_sampler_run qc];
          bitstrings = get_bitstrings lib data;
          calls = calls @ [C_get_bitstrings, C_print];
          counts = get_counts lib data;
          calls = calls @ [C_get_counts, C_print, C_plot_histogram, C_plt_draw]
      in case probs_loop counts (length bitstrings) [] 0 of
           Inl e \<Rightarrow> Inl e
         | Inr (probs, total_prob) \<Rightarrow>
             let calls = calls @ [C_print];
                 qc = QuantumCircuit 2;
                 calls = calls @ [C_QuantumCircuit 2, C_draw qc, C_plt_draw];
                 qc = append_gate (h_gate 0) qc;
                 calls = calls @ [C_gate (h_gate 0), C_draw qc, C_plt_draw];
                 qc = append_gate (cx_gate 0 1) qc;
                 qc = append_gate measure_all_gate qc;
                 calls = calls @ [C_gate (cx_gate 0 1), C_gate measure_all_gate,
                                  C_draw qc, C_plt_draw];
                 transpiled_circuit = transpile lib qc;
                 calls = calls @ [C_FakeSherbrooke, C_transpile qc];
                 counts = backend_run_counts lib transpiled_circuit;
                 calls = calls @ [C_backend_run, C_job_get_counts, C_print,
                                  C_plot_histogram, C_plt_draw]
             in Inr \<lparr>r_qc = qc, r_probs = probs, r_total_prob = total_prob,
                     r_counts = counts, r_calls = calls\<rparr>)"

text \<open>
  The three kinds of library call the specification names, and the order it gives
  them: all construction, then all transpilation, then all sampling. Drawing and
  printing belong to none of them.
\<close>

datatype phase = Construction | Transpilation | Sampling

fun phase_of :: "call \<Rightarrow> phase option" where
  "phase_of (C_QuantumCircuit n) = Some Construction"
| "phase_of (C_gate g) = Some Construction"
| "phase_of C_FakeSherbrooke = Some Transpilation"
| "phase_of (C_transpile qc) = Some Transpilation"
| "phase_of C_StatevectorSampler = Some Sampling"
| "phase_of (C_sampler_run qc) = Some Sampling"
| "phase_of C_get_bitstrings = Some Sampling"
| "phase_of C_get_counts = Some Sampling"
| "phase_of C_backend_run = Some Sampling"
| "phase_of C_job_get_counts = Some Sampling"
| "phase_of c = None"

fun phase_rank :: "phase \<Rightarrow> nat" where
  "phase_rank Construction = 0"
| "phase_rank Transpilation = 1"
| "phase_rank Sampling = 2"

definition phases :: "call list \<Rightarrow> phase list" where
  "phases calls = List.map_filter phase_of calls"

definition in_stated_order :: "call list \<Rightarrow> bool" where
  "in_stated_order calls = sorted (map phase_rank (phases calls))"

text \<open>
  The calls of the two runs of the notebook, as the cells make them, and a library
  whose sampler returns two shots.
\<close>

definition example_library :: "(string list, circuit) library" where
  "example_library = \<lparr>sampler_run = (\<lambda>qc. [''0'', ''1'']), get_bitstrings = (\<lambda>d. d),
     get_counts = (\<lambda>d. [(''0'', 1), (''1'', 1)]), transpile = (\<lambda>qc. qc),
     backend_run_counts = (\<lambda>tc. [(''00'', 1)])\<rparr>"

definition first_circuit :: circuit where
  "first_circuit = \<lparr>num_qubits = 1, instrs = [h_gate 0, measure_all_gate]\<rparr>"

definition second_circuit :: circuit where
  "second_circuit = \<lparr>num_qubits = 2, instrs = [h_gate 0, cx_gate 0 1, measure_all_gate]\<rparr>"

definition first_run :: "call list" where
  "first_run =
     [C_QuantumCircuit 1, C_draw (QuantumCircuit 1), C_plt_draw,
      C_gate (h_gate 0), C_gate measure_all_gate, C_draw first_circuit, C_plt_draw,
      C_StatevectorSampler, C_sampler_run first_circuit,
      C_get_bitstrings, C_print,
      C_get_counts, C_print, C_plot_histogram, C_plt_draw,
      C_print]"

definition second_run :: "call list" where
  "second_run =
     [C_QuantumCircuit 2, C_draw (QuantumCircuit 2), C_plt_draw,
      C_gate (h_gate 0), C_draw (append_gate (h_gate 0) (QuantumCircuit 2)), C_plt_draw,
      C_gate (cx_gate 0 1), C_gate measure_all_gate, C_draw second_circuit, C_plt_draw,
      C_FakeSherbrooke, C_transpile second_circuit,
      C_backend_run, C_job_get_counts, C_print, C_plot_histogram, C_plt_draw]"

section \<open>Shape and entries of the Hamiltonian\<close>

lemma length_hamiltonian: "length (hamiltonian N t eps) = N"
  by (simp add: hamiltonian_def madd_def smul_def bmul_def eye_def)

lemma hamiltonian_entry:
  assumes "length eps = N" "i < N" "j < N"
  shows "length (hamiltonian N t eps ! i) = N"
    and "hamiltonian N t eps ! i ! j =
           (if j = i + 1 \<or> i = j + 1 then t else if i = j then eps ! i else 0)"
  using assms by (auto simp add: hamiltonian_def madd_def smul_def bmul_def eye_def)

lemma grid_nth: "i < N \<Longrightarrow> grid L N ! i = real i * (L / real (N - 1)) - L / 2"
  by (simp add: grid_def linspace_def)

lemma length_grid: "length (grid L N) = N"
  by (simp add: grid_def linspace_def)

lemma spacing_grid: "2 \<le> N \<Longrightarrow> spacing (grid L N) = Inr (L / real (N - 1))"
  by (simp add: spacing_def length_grid grid_nth)

text \<open>
  Claim C1. For a grid of \<open>N \<ge> 2\<close> points over a box of length \<open>L \<noteq> 0\<close> (spacing
  \<open>a = L / (N - 1)\<close>) and a potential \<open>V\<close>, the discretisation succeeds and the matrix
  \<open>H\<close> it builds is \<open>N\<close> by \<open>N\<close>: every entry next to the diagonal is
  \<open>t = -eta\<^sup>2 / (2 m a\<^sup>2)\<close>, the diagonal entry \<open>(i, i)\<close> is \<open>-2 t + q V(x\<^sub>i)\<close>, every
  other entry is zero; and the energies and wavefunctions of the program are what the
  dense eigensolver returns for this very matrix (then reordered and rescaled).
\<close>

theorem hamiltonian_tridiagonal:
  assumes "2 \<le> N" and "L \<noteq> 0" and "m \<noteq> 0"
  shows "\<exists>d. discretize N L V eta m q = Inr d
           \<and> d_a d \<noteq> 0
           \<and> length (d_X d) = N
           \<and> (\<forall>i<N. d_X d ! i = real i * d_a d - L / 2)
           \<and> d_t d = - (eta ^ 2) / (2 * m * (d_a d) ^ 2)
           \<and> length (d_H d) = N
           \<and> (\<forall>i<N. length (d_H d ! i) = N)
           \<and> (\<forall>i<N. \<forall>j<N. d_H d ! i ! j =
                 (if j = i + 1 \<or> i = j + 1 then d_t d
                  else if i = j then - 2 * d_t d + q * V (d_X d ! i)
                  else 0))
           \<and> solve_tise eig N L V eta m q = Inr (reorder (d_a d) (eig (d_H d)))"
proof -
  let ?a = "L / real (N - 1)"
  let ?t = "hopping eta m ?a"
  let ?eps = "onsite ?t q (map V (grid L N))"
  let ?d = "\<lparr>d_X = grid L N, d_a = ?a, d_t = ?t, d_eps = ?eps, d_H = hamiltonian N ?t ?eps\<rparr>"
  have d: "discretize N L V eta m q = Inr ?d"
    using assms(1) by (simp add: discretize_def spacing_grid Let_def)
  have len: "length ?eps = N"
    by (simp add: onsite_def length_grid)
  have a0: "?a \<noteq> 0"
    using assms by simp
  have ent: "\<forall>i<N. \<forall>j<N. hamiltonian N ?t ?eps ! i ! j =
                 (if j = i + 1 \<or> i = j + 1 then ?t
                  else if i = j then - 2 * ?t + q * V (grid L N ! i)
                  else 0)"
  proof (intro allI impI)
    fix i j assume "i < N" "j < N"
    then show "hamiltonian N ?t ?eps ! i ! j =
                 (if j = i + 1 \<or> i = j + 1 then ?t
                  else if i = j then - 2 * ?t + q * V (grid L N ! i)
                  else 0)"
      using hamiltonian_entry(2)[OF len, of i j ?t]
      by (simp add: onsite_def length_grid)
  qed
  have rows: "\<forall>i<N. length (hamiltonian N ?t ?eps ! i) = N"
    using hamiltonian_entry(1)[OF len] by blast
  have X: "\<forall>i<N. grid L N ! i = real i * ?a - L / 2"
    by (simp add: grid_nth)
  have s: "solve_tise eig N L V eta m q = Inr (reorder ?a (eig (hamiltonian N ?t ?eps)))"
    by (simp add: solve_tise_def d)
  show ?thesis
    apply (rule exI[of _ ?d])
    using d a0 ent rows X s
    by (simp add: length_grid length_hamiltonian hopping_def)
qed

theorem hamiltonian_tridiagonal_witness:
  "\<exists>d. discretize 3 2 V_harmonic 1 1 1 = Inr d
     \<and> d_a d = 1 \<and> d_t d = - 1 / 2
     \<and> d_H d ! 0 ! 1 = - 1 / 2 \<and> d_H d ! 1 ! 1 = 1 \<and> d_H d ! 0 ! 2 = 0
     \<and> d_H d ! 2 ! 2 = 1001 / 1000"
proof -
  obtain d where d: "discretize 3 2 V_harmonic 1 1 1 = Inr d"
    and X: "\<forall>i<3. d_X d ! i = real i * d_a d - 2 / 2"
    and t: "d_t d = - (1 ^ 2) / (2 * 1 * (d_a d) ^ 2)"
    and H: "\<forall>i<3. \<forall>j<3. d_H d ! i ! j =
                 (if j = i + 1 \<or> i = j + 1 then d_t d
                  else if i = j then - 2 * d_t d + 1 * V_harmonic (d_X d ! i)
                  else 0)"
    using hamiltonian_tridiagonal[where N = 3 and L = 2 and m = 1 and V = V_harmonic
        and eta = 1 and q = 1 and eig = "\<lambda>M. ([], [])"]
    by auto
  have a: "d_a d = 1"
    using d by (auto simp add: discretize_def spacing_def grid_def linspace_def Let_def)
  have t': "d_t d = - 1 / 2" using t a by simp
  have "d_H d ! 0 ! 1 = - 1 / 2" "d_H d ! 1 ! 1 = 1" "d_H d ! 0 ! 2 = 0"
       "d_H d ! 2 ! 2 = 1001 / 1000"
    using H X a t' by (simp_all add: V_harmonic_def)
  with d a t' show ?thesis by blast
qed

section \<open>The reordering step\<close>

lemma length_argsort: "length (argsort vals) = length vals"
  by (simp add: argsort_def)

lemma set_argsort: "set (argsort vals) = {0..<length vals}"
  by (simp add: argsort_def)

lemma distinct_argsort: "distinct (argsort vals)"
  by (simp add: argsort_def)

lemma sorted_take_argsort: "sorted (take_idx vals (argsort vals))"
  by (simp add: take_idx_def argsort_def)

lemma argsort_nth_less: "i < length vals \<Longrightarrow> argsort vals ! i < length vals"
  using set_argsort[of vals] length_argsort[of vals] nth_mem[of i "argsort vals"] by simp

lemma ncols_take_cols: "vecs \<noteq> [] \<Longrightarrow> ncols (take_cols vecs order) = length order"
  by (cases vecs) (simp_all add: ncols_def take_cols_def)

lemma column_take_cols:
  "i < length order \<Longrightarrow> column i (take_cols vecs order) = column (order ! i) vecs"
  by (simp add: column_def take_cols_def)

lemma dot_divide: "dot u (map (\<lambda>x. x / c) v) = dot u v / c"
proof (induction u arbitrary: v)
  case Nil
  then show ?case by (simp add: dot_def)
next
  case (Cons x u)
  then show ?case by (cases v) (simp_all add: dot_def add_divide_distrib)
qed

lemma mat_vec_divide: "mat_vec M (map (\<lambda>x. x / c) v) = map (\<lambda>x. x / c) (mat_vec M v)"
  by (simp add: mat_vec_def dot_divide)

lemma eigenpair_divide:
  assumes "eigenpair M lam v" "c \<noteq> 0"
  shows "eigenpair M lam (map (\<lambda>x. x / c) v)"
  using assms by (auto simp add: eigenpair_def mat_vec_divide)

lemma reorder_rows:
  assumes "length vals = n" "length vecs = n" "i < n"
  shows "snd (reorder a (vals, vecs)) ! i
           = map (\<lambda>x. x / sqrt a) (column (argsort vals ! i) vecs)"
proof -
  have ne: "vecs \<noteq> []" using assms by auto
  have "ncols (take_cols vecs (argsort vals)) = n"
    using ne assms by (simp add: ncols_take_cols length_argsort)
  then show ?thesis
    using assms
    by (simp add: reorder_def Let_def transpose_mat_def divide_all_def
        column_take_cols length_argsort)
qed

lemma length_reorder_rows:
  assumes "length vals = n" "length vecs = n"
  shows "length (snd (reorder a (vals, vecs))) = n"
proof (cases "vecs = []")
  case True
  then show ?thesis using assms
    by (simp add: reorder_def Let_def transpose_mat_def divide_all_def take_cols_def ncols_def)
next
  case False
  then show ?thesis using assms
    by (simp add: reorder_def Let_def transpose_mat_def divide_all_def ncols_take_cols
        length_argsort)
qed

text \<open>
  Claim C8. Let the eigensolver have returned \<open>n\<close> eigenvalues and an \<open>n\<close> by \<open>n\<close>
  matrix whose \<open>k\<close>-th column is an eigenvector of \<open>M\<close> for the \<open>k\<close>-th eigenvalue, and
  let the grid spacing be positive. After the reordering step the eigenvalues are in
  non-decreasing order, the indices used are a permutation of \<open>0, ..., n - 1\<close>, and
  for every \<open>i\<close> the \<open>i\<close>-th eigenvalue and the \<open>i\<close>-th row of the new \<open>vecs\<close> come from the
  same column of the solver's output: the row is that column divided by \<open>sqrt a\<close>, and
  it is still an eigenvector of \<open>M\<close> for that eigenvalue.
\<close>

theorem reorder_sorted_eigenpairs:
  assumes "length vals = n" and "length vecs = n"
    and "\<forall>row \<in> set vecs. length row = n"
    and "0 < a"
    and "\<forall>k<n. eigenpair M (vals ! k) (column k vecs)"
  shows "sorted (fst (reorder a (vals, vecs)))
         \<and> length (fst (reorder a (vals, vecs))) = n
         \<and> length (snd (reorder a (vals, vecs))) = n
         \<and> distinct (argsort vals) \<and> set (argsort vals) = {0..<n}
         \<and> (\<forall>i<n. fst (reorder a (vals, vecs)) ! i = vals ! (argsort vals ! i)
                \<and> snd (reorder a (vals, vecs)) ! i
                    = map (\<lambda>x. x / sqrt a) (column (argsort vals ! i) vecs)
                \<and> eigenpair M (fst (reorder a (vals, vecs)) ! i)
                     (snd (reorder a (vals, vecs)) ! i))"
proof -
  have f: "fst (reorder a (vals, vecs)) = take_idx vals (argsort vals)"
    by (simp add: reorder_def Let_def)
  have srt: "sorted (fst (reorder a (vals, vecs)))"
    by (simp only: f sorted_take_argsort)
  have len: "length (fst (reorder a (vals, vecs))) = n"
    using assms(1) by (simp add: f take_idx_def length_argsort)
  have sq: "sqrt a \<noteq> 0" using assms(4) by simp
  have each: "\<forall>i<n. fst (reorder a (vals, vecs)) ! i = vals ! (argsort vals ! i)
                \<and> snd (reorder a (vals, vecs)) ! i
                    = map (\<lambda>x. x / sqrt a) (column (argsort vals ! i) vecs)
                \<and> eigenpair M (fst (reorder a (vals, vecs)) ! i)
                     (snd (reorder a (vals, vecs)) ! i)"
  proof (intro allI impI)
    fix i assume i: "i < n"
    have k: "argsort vals ! i < n"
      using argsort_nth_less[of i vals] i assms(1) by simp
    have v: "fst (reorder a (vals, vecs)) ! i = vals ! (argsort vals ! i)"
      using i assms(1) by (simp add: f take_idx_def length_argsort)
    have r: "snd (reorder a (vals, vecs)) ! i
               = map (\<lambda>x. x / sqrt a) (column (argsort vals ! i) vecs)"
      by (rule reorder_rows[OF assms(1) assms(2) i])
    have "eigenpair M (vals ! (argsort vals ! i)) (column (argsort vals ! i) vecs)"
      using assms(5) k by blast
    then have "eigenpair M (vals ! (argsort vals ! i))
                 (map (\<lambda>x. x / sqrt a) (column (argsort vals ! i) vecs))"
      by (rule eigenpair_divide[OF _ sq])
    then show "fst (reorder a (vals, vecs)) ! i = vals ! (argsort vals ! i)
                \<and> snd (reorder a (vals, vecs)) ! i
                    = map (\<lambda>x. x / sqrt a) (column (argsort vals ! i) vecs)
                \<and> eigenpair M (fst (reorder a (vals, vecs)) ! i)
                     (snd (reorder a (vals, vecs)) ! i)"
      by (simp only: v r simp_thms)
  qed
  have st: "set (argsort vals) = {0..<n}"
    using set_argsort[of vals] assms(1) by simp
  from srt len length_reorder_rows[OF assms(1) assms(2)] distinct_argsort[of vals] st each
  show ?thesis by blast
qed

theorem reorder_sorted_eigenpairs_witness:
  "fst (reorder 4 ([2, 1], [[1, 0], [0, 1]])) = [1, 2]
   \<and> snd (reorder 4 ([2, 1], [[1, 0], [0, 1]])) = [[0, 1 / 2], [1 / 2, 0]]
   \<and> sorted (fst (reorder 4 ([2, 1], [[1, 0], [0, 1]])))
   \<and> eigenpair [[2, 0], [0, 1]] (fst (reorder 4 ([2, 1], [[1, 0], [0, 1]])) ! 0)
         (snd (reorder 4 ([2, 1], [[1, 0], [0, 1]])) ! 0)"
proof -
  have e: "\<forall>k<2. eigenpair [[2, 0], [0, 1]] ([2, 1] ! k) (column k [[1, 0], [0, 1]])"
    by (simp add: less_Suc_eq numeral_2_eq_2 eigenpair_def mat_vec_def dot_def column_def)
  have r: "reorder 4 ([2, 1], [[1, 0], [0, 1]]) = ([1, 2], [[0, 1 / 2], [1 / 2, 0]])"
    by (simp add: reorder_def argsort_def take_idx_def take_cols_def transpose_mat_def
        ncols_def column_def divide_all_def Let_def)
  have "sorted (fst (reorder 4 ([2, 1], [[1, 0], [0, 1]])))
        \<and> (\<forall>i<2. eigenpair [[2, 0], [0, 1]] (fst (reorder 4 ([2, 1], [[1, 0], [0, 1]])) ! i)
              (snd (reorder 4 ([2, 1], [[1, 0], [0, 1]])) ! i))"
  proof -
    have l1: "length [2, 1 :: real] = 2" and l2: "length [[1, 0], [0, 1 :: real]] = 2"
      and l3: "\<forall>row \<in> set [[1, 0], [0, 1 :: real]]. length row = 2"
      and l4: "0 < (4 :: real)"
      by simp_all
    from reorder_sorted_eigenpairs[OF l1 l2 l3 l4 e] show ?thesis by blast
  qed
  then have "sorted (fst (reorder 4 ([2, 1], [[1, 0], [0, 1]])))"
    and "eigenpair [[2, 0], [0, 1]] (fst (reorder 4 ([2, 1], [[1, 0], [0, 1]])) ! 0)
           (snd (reorder 4 ([2, 1], [[1, 0], [0, 1]])) ! 0)"
    by simp_all
  then show ?thesis using r by simp
qed

section \<open>The probability density\<close>

text \<open>
  Claim C2. The density the notebook computes from the wavefunctions has their shape
  and its entry \<open>(i, j)\<close> is the squared modulus of entry \<open>(i, j)\<close> of \<open>vecs\<close>; the
  density line of the first frame of the animation and of every later frame drawn by
  \<open>run\<close> is plotted over the grid \<open>X\<close> and its value at each grid point is the squared
  modulus of the wavefunction there.
\<close>

theorem density_is_squared_modulus:
  "length (prob_density vecs) = length vecs
   \<and> (\<forall>i<length vecs. length (prob_density vecs ! i) = length (vecs ! i)
        \<and> (\<forall>j<length (vecs ! i). prob_density vecs ! i ! j = \<bar>vecs ! i ! j\<bar> ^ 2))
   \<and> fst (f_dens (first_frame X coeff psi)) = X
   \<and> length (snd (f_dens (first_frame X coeff psi))) = length (vec_mat coeff psi)
   \<and> (\<forall>x<length (vec_mat coeff psi).
        snd (f_dens (first_frame X coeff psi)) ! x = (cmod (vec_mat coeff psi ! x)) ^ 2)
   \<and> fst (f_dens (run X (t, wave))) = X
   \<and> length (snd (f_dens (run X (t, wave)))) = length wave
   \<and> (\<forall>x<length wave. snd (f_dens (run X (t, wave))) ! x = (cmod (wave ! x)) ^ 2)"
  by (simp add: prob_density_def first_frame_def run_def Let_def)

theorem density_is_squared_modulus_witness:
  "prob_density [[3, - 4]] ! 0 ! 1 = 16
   \<and> snd (f_dens (first_frame [0, 1] [1, \<i>] [[1, 0], [0, 2]])) ! 1 = 4
   \<and> snd (f_dens (run [0, 1] (5, [\<i>, 2]))) ! 0 = 1"
proof -
  have w: "vec_mat [1, \<i>] [[1, 0], [0, 2]] = [1, 2 * \<i>]"
    by (simp add: vec_mat_def ncols_def column_def)
  show ?thesis
    using density_is_squared_modulus[of "[[3, - 4]]" "[0, 1]" "[1, \<i>]" "[[1, 0], [0, 2]]"
        5 "[\<i>, 2]"]
    by (simp add: w norm_mult)
qed

section \<open>The normalisation cell\<close>





lemma try_body_cases:
  "try_body s = (if 0 < sq_norm (s_coeff s)
     then Inr (s\<lparr>s_norm := Some (sq_norm (s_coeff s)),
           s_coeff := map (\<lambda>z. z / complex_of_real (sqrt (sq_norm (s_coeff s)))) (s_coeff s)\<rparr>)
     else Inl (AssertNormPositive, s\<lparr>s_norm := Some (sq_norm (s_coeff s))\<rparr>))"
  by (simp add: try_body_def Let_def)


lemma normalize_cell_in_exact: "normalize_cell_in exact s = normalize_cell s"
  by (simp add: normalize_cell_in_def normalize_cell_def try_body_in_def try_body_def
      exact_def div_sqrt_def Let_def)





section \<open>The generator\<close>

lemma loop_head_continue:
  assumes "e_num_step A = Some n" "int k < n"
  shows "loop_head A eta (int k) (real k * e_timestep A) =
           (Yield (real (Suc k) * e_timestep A,
              vec_mat (phase_coeff eta (e_coeff A) (e_E A) (real k * e_timestep A)) (e_psi A)),
            Suspended (int (Suc k)) (real (Suc k) * e_timestep A))"
  using assms by (simp add: loop_head_def Let_def algebra_simps)

lemma loop_head_stop:
  assumes "e_num_step A = Some n" "\<not> cnt < n"
  shows "loop_head A eta cnt t = (StopIteration, Finished)"
  using assms by (simp add: loop_head_def)

lemma nexts_suspended:
  assumes "e_num_step A = Some n" "k \<le> nat n"
  shows "nexts A eta (Suspended (int k) (real k * e_timestep A)) (Suc (nat n - k)) =
           map (\<lambda>j. Yield (real (Suc j) * e_timestep A,
                  vec_mat (phase_coeff eta (e_coeff A) (e_E A) (real j * e_timestep A)) (e_psi A)))
             [k..<nat n] @ [StopIteration]"
  using assms(2)
proof (induction "nat n - k" arbitrary: k)
  case 0
  then have "\<not> int k < n" by linarith
  then show ?case
    using 0 assms(1) by (simp add: evolve_next_def loop_head_stop)
next
  case (Suc d)
  then have lt: "k < nat n" and d: "d = nat n - Suc k" and le: "Suc k \<le> nat n" by linarith+
  have c: "int k < n" using lt by linarith
  have s: "Suc (nat n - k) = Suc (Suc (nat n - Suc k))" using lt by linarith
  have u: "[k..<nat n] = k # [Suc k..<nat n]" using lt by (simp add: upt_conv_Cons)
  show ?case
    using Suc.hyps(1)[OF d le]
    by (simp only: s u nexts.simps evolve_next_def gen_state.case
        loop_head_continue[OF assms(1) c] prod.case list.map append_Cons)
qed

lemma evolve_first_next:
  assumes "length (e_coeff A) = length (e_psi A)" "length (e_psi A) = length (e_E A)"
    and "e_num_step A = Some n"
  shows "evolve_next A eta Created = evolve_next A eta (Suspended 0 0)"
  using assms by (simp add: evolve_next_def arange_def)

text \<open>
  With equal lengths and a number of steps \<open>n\<close>, the first \<open>n\<close> calls of \<open>next\<close> yield
  and the following one stops; the \<open>k\<close>-th pair (from 0) carries the time \<open>(k + 1) * timestep\<close>
  and the wavefunction whose phases are taken at the time \<open>k * timestep\<close>. A negative
  \<open>n\<close> yields nothing.
\<close>

lemma evolve_yields:
  assumes "length (e_coeff A) = length (e_psi A)" "length (e_psi A) = length (e_E A)"
    and "e_num_step A = Some n"
  shows "nexts A eta Created (Suc (nat n)) =
           map (\<lambda>k. Yield (real (k + 1) * e_timestep A,
                  vec_mat (phase_coeff eta (e_coeff A) (e_E A) (real k * e_timestep A)) (e_psi A)))
             [0..<nat n] @ [StopIteration]"
proof -
  have "nexts A eta Created (Suc (nat n)) = nexts A eta (Suspended 0 0) (Suc (nat n))"
    by (simp add: evolve_first_next[OF assms])
  also have "\<dots> = nexts A eta (Suspended (int 0) (real 0 * e_timestep A)) (Suc (nat n - 0))"
    by simp
  also have "\<dots> = map (\<lambda>j. Yield (real (Suc j) * e_timestep A,
                  vec_mat (phase_coeff eta (e_coeff A) (e_E A) (real j * e_timestep A)) (e_psi A)))
             [0..<nat n] @ [StopIteration]"
    by (rule nexts_suspended[OF assms(3)]) simp
  finally show ?thesis by simp
qed

lemma evolve_yields_example:
  "nexts \<lparr>e_coeff = [1], e_psi = [[1, \<i>]], e_E = [0], e_timestep = 5, e_num_step = Some 2\<rparr> 1
     Created 3 = [Yield (5, [1, \<i>]), Yield (10, [1, \<i>]), StopIteration]"
  by (simp add: numeral_3_eq_3 evolve_next_def arange_def loop_head_def phase_coeff_def
      vec_mat_def ncols_def column_def Let_def)

lemma nexts_finished: "nexts A eta Finished k = replicate k StopIteration"
  by (induction k) (simp_all add: evolve_next_def)

lemma evolve_next_assert:
  "fst (evolve_next A eta st) = Raise AssertSameLength \<longleftrightarrow>
     st = Created \<and> \<not> (length (e_coeff A) = length (e_psi A) \<and> length (e_psi A) = length (e_E A))"
  by (cases st)
    (auto simp add: evolve_next_def loop_head_def arange_def Let_def split: option.splits)

text \<open>
  Claim C9. The claim holds for a number of steps (see \<open>evolve_yields\<close>), and fails for
  \<open>num_step = None\<close>: the loop condition provides for it, but the line
  \<open>ts = np.arange(num_step)*timestep\<close> before the loop raises \<open>TypeError\<close>, so the first
  \<open>next\<close> of the generator raises instead of yielding, and the generator does not run
  for ever.
\<close>

theorem evolve_none_raises:
  "nexts \<lparr>e_coeff = [1], e_psi = [[1]], e_E = [0], e_timestep = 5, e_num_step = None\<rparr> 1
     Created (Suc (Suc 0)) = [Raise TypeError, StopIteration]"
  by (simp add: evolve_next_def arange_def)

section \<open>Failures and their handling\<close>

text \<open>
  The source has two assertions, not one, and a handler: for a zero \<open>coeff\<close> the
  assertion \<open>norm > 0\<close> fails and the cell catches it; for arguments of different
  lengths the assertion at the head of \<open>evolve\<close> fails, and it is another one.
\<close>

theorem single_assertion_counterexample:
  "try_body \<lparr>s_coeff = [0], s_norm = None, s_out = []\<rparr>
     = Inl (AssertNormPositive, \<lparr>s_coeff = [0], s_norm = Some 0, s_out = []\<rparr>)
   \<and> normalize_cell \<lparr>s_coeff = [0], s_norm = None, s_out = []\<rparr>
     = Inr \<lparr>s_coeff = [0], s_norm = Some 0,
            s_out = [Text norm_error_message, TextArray (CHR 0x0A # ''Coeffients:'') [0]]\<rparr>
   \<and> evolve_next \<lparr>e_coeff = [1], e_psi = [], e_E = [0], e_timestep = 5,
         e_num_step = Some 300\<rparr> 1 Created = (Raise AssertSameLength, Finished)
   \<and> AssertNormPositive \<noteq> AssertSameLength"
  by (simp add: try_body_def normalize_cell_def sq_norm_def print_coeff_def
      is_AssertionError_def evolve_next_def Let_def)

text \<open>
  Claim C3, amended. The failure model is two assertions and one handler. The body
  of the \<open>try\<close> raises exactly when the squared norm of \<open>coeff\<close> is not positive, it
  raises nothing but the assertion \<open>norm > 0\<close>, and the cell catches it and completes.
  The first \<open>next\<close> of \<open>evolve\<close> raises the assertion on the lengths exactly when the
  three lengths are not all equal; no later \<open>next\<close> raises it, and \<open>evolve\<close> never raises
  the other assertion.
\<close>

theorem failure_model:
  "((\<exists>s'. try_body s = Inl (AssertNormPositive, s')) \<longleftrightarrow> \<not> 0 < sq_norm (s_coeff s))
   \<and> (\<forall>e s'. try_body s = Inl (e, s') \<longrightarrow> e = AssertNormPositive)
   \<and> (\<exists>s'. normalize_cell s = Inr s')
   \<and> (fst (evolve_next A eta Created) = Raise AssertSameLength \<longleftrightarrow>
        \<not> (length (e_coeff A) = length (e_psi A) \<and> length (e_psi A) = length (e_E A)))
   \<and> (\<forall>st. fst (evolve_next A eta st) = Raise AssertSameLength \<longrightarrow> st = Created)
   \<and> (\<forall>st. fst (evolve_next A eta st) \<noteq> Raise AssertNormPositive)"
proof (intro conjI)
  show "(\<exists>s'. try_body s = Inl (AssertNormPositive, s')) \<longleftrightarrow> \<not> 0 < sq_norm (s_coeff s)"
    by (simp add: try_body_cases)
  show "\<forall>e s'. try_body s = Inl (e, s') \<longrightarrow> e = AssertNormPositive"
    by (simp add: try_body_cases)
  show "\<exists>s'. normalize_cell s = Inr s'"
    by (simp add: normalize_cell_def try_body_cases is_AssertionError_def)
  show "fst (evolve_next A eta Created) = Raise AssertSameLength \<longleftrightarrow>
        \<not> (length (e_coeff A) = length (e_psi A) \<and> length (e_psi A) = length (e_E A))"
    by (simp add: evolve_next_assert)
  show "\<forall>st. fst (evolve_next A eta st) = Raise AssertSameLength \<longrightarrow> st = Created"
    by (simp add: evolve_next_assert)
  show "\<forall>st. fst (evolve_next A eta st) \<noteq> Raise AssertNormPositive"
  proof
    fix st show "fst (evolve_next A eta st) \<noteq> Raise AssertNormPositive"
      by (cases st)
        (auto simp add: evolve_next_def loop_head_def arange_def Let_def split: option.splits)
  qed
qed

theorem failure_model_witness:
  "(\<exists>s'. try_body \<lparr>s_coeff = [0, 0], s_norm = None, s_out = []\<rparr> = Inl (AssertNormPositive, s'))
   \<and> fst (evolve_next \<lparr>e_coeff = [1, 1], e_psi = [[1]], e_E = [0, 0], e_timestep = 1,
         e_num_step = Some 2\<rparr> 1 Created) = Raise AssertSameLength"
  using failure_model[of "\<lparr>s_coeff = [0, 0], s_norm = None, s_out = []\<rparr>"
      "\<lparr>e_coeff = [1, 1], e_psi = [[1]], e_E = [0, 0], e_timestep = 1, e_num_step = Some 2\<rparr>" 1]
  by (simp add: sq_norm_def)

text \<open>
  The normalisation cell does recover from a failure: on a zero \<open>coeff\<close> the body of
  the \<open>try\<close> raises, and the cell goes on to print the message and the coefficients.
\<close>

theorem recovery_counterexample:
  "try_body \<lparr>s_coeff = [0, 0], s_norm = None, s_out = []\<rparr>
     = Inl (AssertNormPositive, \<lparr>s_coeff = [0, 0], s_norm = Some 0, s_out = []\<rparr>)
   \<and> normalize_cell \<lparr>s_coeff = [0, 0], s_norm = None, s_out = []\<rparr>
     = Inr \<lparr>s_coeff = [0, 0], s_norm = Some 0,
            s_out = [Text norm_error_message, TextArray (CHR 0x0A # ''Coeffients:'') [0, 0]]\<rparr>"
  by (simp add: try_body_def normalize_cell_def sq_norm_def print_coeff_def
      is_AssertionError_def Let_def)

text \<open>
  Claim C4, amended. The only failure recovery is that of the normalisation cell: it
  always completes, its last output is the print of the coefficients, and it prints
  the error message exactly when the body of the \<open>try\<close> raised the assertion. The other
  failures are not caught: with arguments of different lengths the first \<open>next\<close> of
  \<open>evolve\<close> raises the assertion error and the generator is finished, with
  \<open>num_step = None\<close> it raises \<open>TypeError\<close>, and a grid of fewer than two points makes
  the discretisation fail with \<open>IndexError\<close>.
\<close>

theorem recovery_only_in_normalize_cell:
  "(\<exists>s'. normalize_cell s = Inr s'
       \<and> last (s_out s') = TextArray (CHR 0x0A # ''Coeffients:'') (s_coeff s')
       \<and> (Text norm_error_message \<in> set (drop (length (s_out s)) (s_out s'))
            \<longleftrightarrow> (\<exists>s1. try_body s = Inl (AssertNormPositive, s1))))
   \<and> (\<not> (length (e_coeff A) = length (e_psi A) \<and> length (e_psi A) = length (e_E A)) \<longrightarrow>
        nexts A eta Created (Suc k) = Raise AssertSameLength # replicate k StopIteration)
   \<and> (length (e_coeff A) = length (e_psi A) \<and> length (e_psi A) = length (e_E A)
        \<and> e_num_step A = None \<longrightarrow>
        nexts A eta Created (Suc k) = Raise TypeError # replicate k StopIteration)
   \<and> (N < 2 \<longrightarrow> solve_tise eig N L V eta' m q = Inl IndexError)"
proof (intro conjI impI)
  show "\<exists>s'. normalize_cell s = Inr s'
       \<and> last (s_out s') = TextArray (CHR 0x0A # ''Coeffients:'') (s_coeff s')
       \<and> (Text norm_error_message \<in> set (drop (length (s_out s)) (s_out s'))
            \<longleftrightarrow> (\<exists>s1. try_body s = Inl (AssertNormPositive, s1)))"
    by (simp add: normalize_cell_def try_body_cases is_AssertionError_def print_coeff_def)
next
  assume "\<not> (length (e_coeff A) = length (e_psi A) \<and> length (e_psi A) = length (e_E A))"
  then have "evolve_next A eta Created = (Raise AssertSameLength, Finished)"
    by (auto simp add: evolve_next_def)
  then show "nexts A eta Created (Suc k) = Raise AssertSameLength # replicate k StopIteration"
    by (simp add: nexts_finished)
next
  assume "length (e_coeff A) = length (e_psi A) \<and> length (e_psi A) = length (e_E A)
        \<and> e_num_step A = None"
  then have "evolve_next A eta Created = (Raise TypeError, Finished)"
    by (simp add: evolve_next_def arange_def)
  then show "nexts A eta Created (Suc k) = Raise TypeError # replicate k StopIteration"
    by (simp add: nexts_finished)
next
  assume "N < 2"
  then show "solve_tise eig N L V eta' m q = Inl IndexError"
    by (simp add: solve_tise_def discretize_def spacing_def length_grid Let_def)
qed

theorem recovery_only_in_normalize_cell_witness:
  "(\<exists>s'. normalize_cell \<lparr>s_coeff = [0], s_norm = None, s_out = []\<rparr> = Inr s'
       \<and> last (s_out s') = TextArray (CHR 0x0A # ''Coeffients:'') (s_coeff s')
       \<and> Text norm_error_message \<in> set (s_out s'))
   \<and> nexts \<lparr>e_coeff = [1], e_psi = [], e_E = [0], e_timestep = 5, e_num_step = Some 3\<rparr> 1
        Created (Suc 1) = [Raise AssertSameLength, StopIteration]
   \<and> solve_tise (\<lambda>M. ([], [])) 1 100 V_harmonic 1 1 1 = Inl IndexError"
  using recovery_only_in_normalize_cell[of "\<lparr>s_coeff = [0], s_norm = None, s_out = []\<rparr>"
      "\<lparr>e_coeff = [1], e_psi = [], e_E = [0], e_timestep = 5, e_num_step = Some 3\<rparr>"
      1 1 1 "\<lambda>M. ([], [])" 100 V_harmonic 1 1 1]
  by (simp add: try_body_cases sq_norm_def)

section \<open>The calls of the quantum-circuit notebook\<close>

lemma probs_loop_ok:
  assumes "0 < n"
  shows "probs_loop counts n probs total_prob =
           Inr (probs @ map (\<lambda>(state, c). (state, real c / real n)) counts,
                total_prob + sum_list (map (\<lambda>(state, c). real c / real n) counts))"
  using assms
  by (induction counts n probs total_prob rule: probs_loop.induct) simp_all

lemma phases_first_run:
  "phases first_run =
     [Construction, Construction, Construction, Sampling, Sampling, Sampling, Sampling]"
  by (simp add: phases_def first_run_def List.map_filter_simps)

lemma phases_second_run:
  "phases second_run =
     [Construction, Construction, Construction, Construction,
      Transpilation, Transpilation, Sampling, Sampling]"
  by (simp add: phases_def second_run_def List.map_filter_simps)

lemma hw4_calls:
  assumes "hw4 lib = Inr r"
  shows "r_calls r = first_run @ second_run" and "r_qc r = second_circuit"
    and "r_counts r = backend_run_counts lib (transpile lib second_circuit)"
  using assms
  by (auto simp add: hw4_def Let_def first_run_def second_run_def first_circuit_def
      second_circuit_def QuantumCircuit_def append_gate_def split: sum.splits)

text \<open>
  The calls are not in the order construction, transpilation, sampling: the first
  circuit is sampled before anything is transpiled, and the second circuit is
  constructed after that sampling. The quotients are also added up.
\<close>

theorem hw4_order_counterexample:
  "\<exists>r. hw4 example_library = Inr r
     \<and> phases (r_calls r) =
         [Construction, Construction, Construction, Sampling, Sampling, Sampling, Sampling,
          Construction, Construction, Construction, Construction,
          Transpilation, Transpilation, Sampling, Sampling]
     \<and> \<not> in_stated_order (r_calls r)
     \<and> r_probs r = [(''0'', 1 / 2), (''1'', 1 / 2)]
     \<and> r_total_prob r = 1 / 2 + 1 / 2"
  by (simp add: hw4_def example_library_def Let_def QuantumCircuit_def append_gate_def
      in_stated_order_def phases_def List.map_filter_simps)

text \<open>
  Claim C5, amended. When the sampler returns at least one shot, the notebook
  completes and its library calls are two runs, one after the other. The first
  constructs the one-qubit circuit (\<open>h\<close>, \<open>measure_all\<close>) and samples it with the
  statevector sampler, with no transpilation; the second constructs the two-qubit
  circuit (\<open>h\<close>, \<open>cx\<close>, \<open>measure_all\<close>), transpiles it for the fake backend and runs it
  there; within each run the order is construction, transpilation, sampling. Outside
  the library the notebook divides every count of the first run by the number of
  shots and adds the quotients up.
\<close>

theorem hw4_two_runs:
  assumes "get_bitstrings lib (sampler_run lib first_circuit) \<noteq> []"
  shows "\<exists>r. hw4 lib = Inr r
     \<and> r_calls r = first_run @ second_run
     \<and> in_stated_order first_run \<and> in_stated_order second_run
     \<and> phases first_run =
         [Construction, Construction, Construction, Sampling, Sampling, Sampling, Sampling]
     \<and> phases second_run =
         [Construction, Construction, Construction, Construction,
          Transpilation, Transpilation, Sampling, Sampling]
     \<and> r_probs r =
         map (\<lambda>(state, c). (state,
                real c / real (length (get_bitstrings lib (sampler_run lib first_circuit)))))
           (get_counts lib (sampler_run lib first_circuit))
     \<and> r_total_prob r =
         sum_list (map (\<lambda>(state, c).
                real c / real (length (get_bitstrings lib (sampler_run lib first_circuit))))
           (get_counts lib (sampler_run lib first_circuit)))
     \<and> r_qc r = second_circuit
     \<and> r_counts r = backend_run_counts lib (transpile lib second_circuit)"
proof -
  let ?data = "sampler_run lib first_circuit"
  let ?n = "length (get_bitstrings lib ?data)"
  have n: "0 < ?n" using assms by simp
  have q: "append_gate measure_all_gate (append_gate (h_gate 0) (QuantumCircuit (Suc 0)))
             = first_circuit"
    by (simp add: first_circuit_def QuantumCircuit_def append_gate_def)
  have "\<exists>r. hw4 lib = Inr r
          \<and> r_probs r = map (\<lambda>(state, c). (state, real c / real ?n)) (get_counts lib ?data)
          \<and> r_total_prob r = sum_list (map (\<lambda>(state, c). real c / real ?n) (get_counts lib ?data))"
    by (simp add: hw4_def Let_def q probs_loop_ok[OF n])
  then obtain r where r: "hw4 lib = Inr r"
    and p: "r_probs r = map (\<lambda>(state, c). (state, real c / real ?n)) (get_counts lib ?data)"
    and tp: "r_total_prob r = sum_list (map (\<lambda>(state, c). real c / real ?n) (get_counts lib ?data))"
    by blast
  have o1: "in_stated_order first_run"
    by (simp add: in_stated_order_def phases_first_run)
  have o2: "in_stated_order second_run"
    by (simp add: in_stated_order_def phases_second_run)
  from r p tp o1 o2 hw4_calls[OF r] phases_first_run phases_second_run
  show ?thesis by blast
qed

theorem hw4_two_runs_witness:
  "\<exists>r. hw4 example_library = Inr r
     \<and> r_calls r = first_run @ second_run
     \<and> r_probs r = [(''0'', 1 / 2), (''1'', 1 / 2)]
     \<and> r_total_prob r = 1
     \<and> r_counts r = [(''00'', 1)]"
  using hw4_two_runs[of example_library]
  by (auto simp add: example_library_def)

end
